theory Spec2Isabelle
  imports Main
begin

section \<open>Package observe: platform detection and exporter registration\<close>

text \<open>
  A shallow embedding of \<^verbatim>\<open>observe/observe.go\<close>. The package reads the process
  environment and calls six external collaborators: credential discovery, resource
  autodetection, the Stackdriver exporter factory, the trace registry, the metrics-view
  registry and the profiler. The environment and the collaborators' answers are the
  input; every call of a collaborator is appended to a log, so that which calls happen,
  how often and in which order is a property of the returned state.
\<close>

subsection \<open>Values of the external libraries\<close>

text \<open>
  Go's \<^verbatim>\<open>error\<close>: \<^verbatim>\<open>errors.New(msg)\<close>, an error wrapped by \<^verbatim>\<open>errors.Wrap\<close>, or an error
  made by a collaborator. A nil error is \<open>None\<close> of \<open>error option\<close>.
\<close>

datatype error =
    New string
  | Wrapped error string
  | External string

text \<open>Opaque values; the package only passes them on.\<close>

datatype Credentials = Credentials string

datatype Resource = Resource string

datatype Exporter = Exporter nat

text \<open>The callback \<^verbatim>\<open>func(error)\<close>: the package never calls it, only its identity matters.\<close>

datatype ErrorFunc = ErrorFunc nat

text \<open>\<^verbatim>\<open>option.WithCredentials(creds)\<close>, with \<^verbatim>\<open>creds\<close> a pointer that may be nil.\<close>

datatype ClientOption = WithCredentials "Credentials option"

text \<open>The fields of \<^verbatim>\<open>stackdriver.Options\<close> that \<^verbatim>\<open>getSDOpts\<close> sets.\<close>

record Options =
  ProjectID :: string
  MonitoredResource :: "Resource option"
  MonitoringClientOptions :: "ClientOption list"
  TraceClientOptions :: "ClientOption list"
  OnError :: ErrorFunc
  DefaultTraceAttributes :: "string \<rightharpoonup> string"

text \<open>The fields of \<^verbatim>\<open>profiler.Config\<close> that \<^verbatim>\<open>RegisterAndObserveGCP\<close> sets.\<close>

record Config =
  ConfigProjectID :: string
  Service :: string
  ServiceVersion :: string

subsection \<open>The world: environment, collaborators, call log, registries\<close>

datatype event =
    is_FindDefaultCredentials: EvFindDefaultCredentials
  | is_Autodetect: EvAutodetect
  | is_NewExporter: EvNewExporter Options
  | is_TraceRegisterExporter: EvTraceRegisterExporter "Exporter option"
  | is_ViewRegisterExporter: EvViewRegisterExporter "Exporter option"
  | is_ProfilerStart: EvProfilerStart Config

text \<open>
  \<open>environ\<close> is the process environment. \<open>credentials\<close> is what
  \<^verbatim>\<open>google.FindDefaultCredentials\<close> returns (a pointer and an error);
  \<open>autodetect k\<close> is what the \<open>k\<close>-th call (from 0) of
  \<^verbatim>\<open>monitoredresource.Autodetect\<close> returns, which may differ from call to call;
  \<open>newExporter\<close> is \<^verbatim>\<open>stackdriver.NewExporter\<close> and \<open>profilerStart\<close> is
  \<^verbatim>\<open>profiler.Start\<close>. \<open>calls\<close> is the log of collaborator calls, oldest first;
  \<open>trace_exporters\<close> and \<open>view_exporters\<close> are the two process-wide registries.
\<close>

record world =
  environ :: "string \<rightharpoonup> string"
  credentials :: "Credentials option \<times> error option"
  autodetect :: "nat \<Rightarrow> Resource option"
  newExporter :: "Options \<Rightarrow> Exporter option \<times> error option"
  profilerStart :: "Config \<Rightarrow> error option"
  calls :: "event list"
  trace_exporters :: "Exporter option set"
  view_exporters :: "Exporter option set"

definition logged :: "event \<Rightarrow> world \<Rightarrow> world" where
  "logged e w = w\<lparr>calls := calls w @ [e]\<rparr>"

text \<open>The calls made between state \<open>w\<close> and a later state \<open>w'\<close>.\<close>

definition new_calls :: "world \<Rightarrow> world \<Rightarrow> event list" where
  "new_calls w w' = drop (length (calls w)) (calls w')"

text \<open>How many of the calls \<open>es\<close> are of the kind \<open>P\<close>.\<close>

definition count_calls :: "(event \<Rightarrow> bool) \<Rightarrow> event list \<Rightarrow> nat" where
  "count_calls P es = length (filter P es)"

subsection \<open>External functions\<close>

text \<open>\<^verbatim>\<open>os.Getenv\<close>: the value of the variable, empty when it is not set.\<close>

definition os_Getenv :: "world \<Rightarrow> string \<Rightarrow> string" where
  "os_Getenv w k = (case environ w k of None \<Rightarrow> [] | Some v \<Rightarrow> v)"

definition errors_New :: "string \<Rightarrow> error option" where
  "errors_New msg = Some (New msg)"

text \<open>\<^verbatim>\<open>errors.Wrap\<close> of package \<^verbatim>\<open>github.com/pkg/errors\<close>: nil when the error is nil.\<close>

definition errors_Wrap :: "error option \<Rightarrow> string \<Rightarrow> error option" where
  "errors_Wrap err msg = (case err of None \<Rightarrow> None | Some e \<Rightarrow> Some (Wrapped e msg))"

definition google_FindDefaultCredentials ::
  "world \<Rightarrow> (Credentials option \<times> error option) \<times> world" where
  "google_FindDefaultCredentials w = (credentials w, logged EvFindDefaultCredentials w)"

definition monitoredresource_Autodetect :: "world \<Rightarrow> Resource option \<times> world" where
  "monitoredresource_Autodetect w =
     (autodetect w (count_calls is_Autodetect (calls w)), logged EvAutodetect w)"

definition stackdriver_NewExporter ::
  "Options \<Rightarrow> world \<Rightarrow> (Exporter option \<times> error option) \<times> world" where
  "stackdriver_NewExporter opts w = (newExporter w opts, logged (EvNewExporter opts) w)"

definition trace_RegisterExporter :: "Exporter option \<Rightarrow> world \<Rightarrow> world" where
  "trace_RegisterExporter e w =
     logged (EvTraceRegisterExporter e) (w\<lparr>trace_exporters := insert e (trace_exporters w)\<rparr>)"

definition view_RegisterExporter :: "Exporter option \<Rightarrow> world \<Rightarrow> world" where
  "view_RegisterExporter e w =
     logged (EvViewRegisterExporter e) (w\<lparr>view_exporters := insert e (view_exporters w)\<rparr>)"

definition profiler_Start :: "Config \<Rightarrow> world \<Rightarrow> error option \<times> world" where
  "profiler_Start cfg w = (profilerStart w cfg, logged (EvProfilerStart cfg) w)"

subsection \<open>The package\<close>

definition GoogleProjectID :: "world \<Rightarrow> string" where
  "GoogleProjectID w = os_Getenv w ''GOOGLE_CLOUD_PROJECT''"

definition IsGAE :: "world \<Rightarrow> bool" where
  "IsGAE w \<longleftrightarrow> os_Getenv w ''GAE_DEPLOYMENT_ID'' \<noteq> []"

definition GetGAEInfo :: "world \<Rightarrow> string \<times> string \<times> string" where
  "GetGAEInfo w = (GoogleProjectID w, os_Getenv w ''GAE_SERVICE'', os_Getenv w ''GAE_VERSION'')"

definition GetServiceInfo :: "world \<Rightarrow> string \<times> string \<times> string" where
  "GetServiceInfo w =
     (if IsGAE w then GetGAEInfo w
      else (GoogleProjectID w, os_Getenv w ''SERVICE_NAME'', os_Getenv w ''SERVICE_VERSION''))"

definition SkipObserve :: "world \<Rightarrow> bool" where
  "SkipObserve w \<longleftrightarrow> os_Getenv w ''GIZMO_SKIP_OBSERVE'' \<noteq> []"

text \<open>\<^verbatim>\<open>IsGAE() || monitoredresource.Autodetect() != nil\<close>: the right operand runs only when
  the left one is false.\<close>

definition IsGCPEnabled :: "world \<Rightarrow> bool \<times> world" where
  "IsGCPEnabled w =
     (if IsGAE w then (True, w)
      else case monitoredresource_Autodetect w of (m, w1) \<Rightarrow> (m \<noteq> None, w1))"

definition getSDOpts ::
  "string \<Rightarrow> string \<Rightarrow> string \<Rightarrow> ErrorFunc \<Rightarrow> world \<Rightarrow> Options option \<times> world" where
  "getSDOpts projectID service version onErr w =
     (case google_FindDefaultCredentials w of ((creds, err), w1) \<Rightarrow>
        if err \<noteq> None then (None, w1)
        else
          let canExport = IsGAE w1 in
          case monitoredresource_Autodetect w1 of (m, w2) \<Rightarrow>
            let (mr, canExport) = (if m \<noteq> None then (m, True) else (None, canExport)) in
            if \<not> canExport then (None, w2)
            else
              (Some \<lparr>ProjectID = projectID,
                     MonitoredResource = mr,
                     MonitoringClientOptions = [WithCredentials creds],
                     TraceClientOptions = [WithCredentials creds],
                     OnError = onErr,
                     DefaultTraceAttributes =
                       [''service'' \<mapsto> service, ''version'' \<mapsto> version]\<rparr>,
               w2))"

definition NewStackdriverExporter ::
  "string \<Rightarrow> ErrorFunc \<Rightarrow> world \<Rightarrow> (Exporter option \<times> error option) \<times> world" where
  "NewStackdriverExporter projectID onErr w =
     (case GetServiceInfo w of (_, svcName, svcVersion) \<Rightarrow>
        case getSDOpts projectID svcName svcVersion onErr w of (opts, w1) \<Rightarrow>
          (case opts of
             None \<Rightarrow> ((None, None), w1)
           | Some opts \<Rightarrow> stackdriver_NewExporter opts w1))"

definition RegisterAndObserveGCP :: "ErrorFunc \<Rightarrow> world \<Rightarrow> error option \<times> world" where
  "RegisterAndObserveGCP onError w =
     (if SkipObserve w then (None, w)
      else case IsGCPEnabled w of (enabled, w1) \<Rightarrow>
        if \<not> enabled then
          (errors_New ''environment is not GCP enabled, no observe tools will be run'', w1)
        else
          case GetServiceInfo w1 of (projectID, svcName, svcVersion) \<Rightarrow>
            case NewStackdriverExporter projectID onError w1 of ((exp, err), w2) \<Rightarrow>
              if err \<noteq> None then
                (errors_Wrap err ''unable to initiate error tracing exporter'', w2)
              else
                let w3 = trace_RegisterExporter exp w2;
                    w4 = view_RegisterExporter exp w3
                in case profiler_Start
                          \<lparr>ConfigProjectID = projectID, Service = svcName,
                           ServiceVersion = svcVersion\<rparr> w4 of
                     (err, w5) \<Rightarrow> (errors_Wrap err ''unable to initiate profiling client'', w5))"

subsection \<open>Example worlds\<close>

text \<open>A world with the given environment and collaborator answers, before any call.\<close>

definition fresh ::
  "(string \<times> string) list \<Rightarrow> Credentials option \<times> error option \<Rightarrow> (nat \<Rightarrow> Resource option)
   \<Rightarrow> (Options \<Rightarrow> Exporter option \<times> error option) \<Rightarrow> (Config \<Rightarrow> error option) \<Rightarrow> world" where
  "fresh vars cr ad ne ps =
     \<lparr>environ = map_of vars, credentials = cr, autodetect = ad, newExporter = ne,
      profilerStart = ps, calls = [], trace_exporters = {}, view_exporters = {}\<rparr>"

text \<open>An App Engine environment in which the generic variables are set as well.\<close>

definition gae_env :: "(string \<times> string) list" where
  "gae_env =
     [(''GAE_DEPLOYMENT_ID'', ''425661''), (''GOOGLE_CLOUD_PROJECT'', ''nyt-proj''),
      (''GAE_SERVICE'', ''web''), (''GAE_VERSION'', ''v7''),
      (''SERVICE_NAME'', ''api''), (''SERVICE_VERSION'', ''0.1'')]"

text \<open>An environment outside App Engine, for instance a Compute Engine instance.\<close>

definition gce_env :: "(string \<times> string) list" where
  "gce_env =
     [(''GOOGLE_CLOUD_PROJECT'', ''nyt-proj''),
      (''SERVICE_NAME'', ''api''), (''SERVICE_VERSION'', ''0.1'')]"

definition no_credentials :: "Credentials option \<times> error option" where
  "no_credentials = (None, Some (External ''could not find default credentials''))"

definition found_credentials :: "Credentials option \<times> error option" where
  "found_credentials = (Some (Credentials ''service-account''), None)"

definition gce_instance :: "nat \<Rightarrow> Resource option" where
  "gce_instance k = Some (Resource ''gce_instance'')"

definition no_resource :: "nat \<Rightarrow> Resource option" where
  "no_resource k = None"

definition exporter_ok :: "Options \<Rightarrow> Exporter option \<times> error option" where
  "exporter_ok opts = (Some (Exporter 1), None)"

definition profiler_ok :: "Config \<Rightarrow> error option" where
  "profiler_ok cfg = None"

definition profiler_down :: "Config \<Rightarrow> error option" where
  "profiler_down cfg = Some (External ''profiler agent unavailable'')"

section \<open>Properties\<close>

subsection \<open>What a call leaves unchanged\<close>

lemma logged_fields [simp]:
  "environ (logged e w) = environ w"
  "credentials (logged e w) = credentials w"
  "autodetect (logged e w) = autodetect w"
  "newExporter (logged e w) = newExporter w"
  "profilerStart (logged e w) = profilerStart w"
  "calls (logged e w) = calls w @ [e]"
  "trace_exporters (logged e w) = trace_exporters w"
  "view_exporters (logged e w) = view_exporters w"
  by (simp_all add: logged_def)

lemma trace_RegisterExporter_fields [simp]:
  "environ (trace_RegisterExporter x w) = environ w"
  "profilerStart (trace_RegisterExporter x w) = profilerStart w"
  "calls (trace_RegisterExporter x w) = calls w @ [EvTraceRegisterExporter x]"
  "trace_exporters (trace_RegisterExporter x w) = insert x (trace_exporters w)"
  "view_exporters (trace_RegisterExporter x w) = view_exporters w"
  by (simp_all add: trace_RegisterExporter_def)

lemma view_RegisterExporter_fields [simp]:
  "environ (view_RegisterExporter x w) = environ w"
  "profilerStart (view_RegisterExporter x w) = profilerStart w"
  "calls (view_RegisterExporter x w) = calls w @ [EvViewRegisterExporter x]"
  "trace_exporters (view_RegisterExporter x w) = trace_exporters w"
  "view_exporters (view_RegisterExporter x w) = insert x (view_exporters w)"
  by (simp_all add: view_RegisterExporter_def)

lemma os_Getenv_cong: "environ w' = environ w \<Longrightarrow> os_Getenv w' k = os_Getenv w k"
  by (simp add: os_Getenv_def)

lemma IsGAE_cong: "environ w' = environ w \<Longrightarrow> IsGAE w' = IsGAE w"
  by (simp add: IsGAE_def os_Getenv_def)

lemma GetServiceInfo_cong: "environ w' = environ w \<Longrightarrow> GetServiceInfo w' = GetServiceInfo w"
  by (simp add: GetServiceInfo_def GetGAEInfo_def GoogleProjectID_def IsGAE_def os_Getenv_def)

lemma count_calls_simps [simp]:
  "count_calls P [] = 0"
  "count_calls P (e # es) = (if P e then Suc (count_calls P es) else count_calls P es)"
  "count_calls P (es @ es') = count_calls P es + count_calls P es'"
  by (simp_all add: count_calls_def)

lemma new_calls_append: "calls w' = calls w @ es \<Longrightarrow> new_calls w w' = es"
  by (simp add: new_calls_def)

subsection \<open>The paths through the package\<close>

lemma IsGCPEnabled_GAE: "IsGAE w \<Longrightarrow> IsGCPEnabled w = (True, w)"
  by (simp add: IsGCPEnabled_def)

lemma IsGCPEnabled_not_GAE:
  "\<not> IsGAE w \<Longrightarrow>
   IsGCPEnabled w =
     (autodetect w (count_calls is_Autodetect (calls w)) \<noteq> None, logged EvAutodetect w)"
  by (simp add: IsGCPEnabled_def monitoredresource_Autodetect_def)

lemma getSDOpts_no_credentials:
  "snd (credentials w) \<noteq> None \<Longrightarrow>
   getSDOpts projectID service version onErr w = (None, logged EvFindDefaultCredentials w)"
  by (cases "credentials w") (simp add: getSDOpts_def google_FindDefaultCredentials_def)

lemma getSDOpts_credentials:
  "credentials w = (creds, None) \<Longrightarrow>
   getSDOpts projectID service version onErr w =
     (if IsGAE w \<or> autodetect w (count_calls is_Autodetect (calls w)) \<noteq> None
      then Some \<lparr>ProjectID = projectID,
                 MonitoredResource = autodetect w (count_calls is_Autodetect (calls w)),
                 MonitoringClientOptions = [WithCredentials creds],
                 TraceClientOptions = [WithCredentials creds],
                 OnError = onErr,
                 DefaultTraceAttributes = [''service'' \<mapsto> service, ''version'' \<mapsto> version]\<rparr>
      else None,
      logged EvAutodetect (logged EvFindDefaultCredentials w))"
  by (simp add: getSDOpts_def google_FindDefaultCredentials_def monitoredresource_Autodetect_def
      IsGAE_cong [of "logged EvFindDefaultCredentials w" w])

lemma NewStackdriverExporter_no_credentials:
  "snd (credentials w) \<noteq> None \<Longrightarrow>
   NewStackdriverExporter projectID onErr w = ((None, None), logged EvFindDefaultCredentials w)"
  by (simp add: NewStackdriverExporter_def getSDOpts_no_credentials split: prod.splits)

lemma NewStackdriverExporter_not_exportable:
  "credentials w = (creds, None) \<Longrightarrow> \<not> IsGAE w \<Longrightarrow>
   autodetect w (count_calls is_Autodetect (calls w)) = None \<Longrightarrow>
   NewStackdriverExporter projectID onErr w =
     ((None, None), logged EvAutodetect (logged EvFindDefaultCredentials w))"
  by (simp add: NewStackdriverExporter_def getSDOpts_credentials split: prod.splits)

lemma NewStackdriverExporter_exportable:
  "credentials w = (creds, None) \<Longrightarrow>
   IsGAE w \<or> autodetect w (count_calls is_Autodetect (calls w)) \<noteq> None \<Longrightarrow>
   \<exists>opts. NewStackdriverExporter projectID onErr w =
     (newExporter w opts,
      logged (EvNewExporter opts) (logged EvAutodetect (logged EvFindDefaultCredentials w)))"
  by (auto simp add: NewStackdriverExporter_def getSDOpts_credentials stackdriver_NewExporter_def
      split: prod.splits)

text \<open>After the two guards, the rest of RegisterAndObserveGCP, given what
  NewStackdriverExporter returned.\<close>

lemma Register_exporter_error:
  assumes "\<not> SkipObserve w" and "IsGCPEnabled w = (True, w1)" and "environ w1 = environ w"
    and "GetServiceInfo w = (projectID, svcName, svcVersion)"
    and "NewStackdriverExporter projectID onError w1 = ((exp, Some e), w2)"
  shows "RegisterAndObserveGCP onError w =
           (Some (Wrapped e ''unable to initiate error tracing exporter''), w2)"
  using assms
  by (simp add: RegisterAndObserveGCP_def GetServiceInfo_cong [of w1 w] errors_Wrap_def)

lemma Register_exporter_ok:
  assumes "\<not> SkipObserve w" and "IsGCPEnabled w = (True, w1)" and "environ w1 = environ w"
    and "GetServiceInfo w = (projectID, svcName, svcVersion)"
    and "NewStackdriverExporter projectID onError w1 = ((exp, None), w2)"
    and "cfg = \<lparr>ConfigProjectID = projectID, Service = svcName, ServiceVersion = svcVersion\<rparr>"
  shows "RegisterAndObserveGCP onError w =
           (errors_Wrap (profilerStart w2 cfg) ''unable to initiate profiling client'',
            logged (EvProfilerStart cfg)
              (view_RegisterExporter exp (trace_RegisterExporter exp w2)))"
  using assms
  by (simp add: RegisterAndObserveGCP_def GetServiceInfo_cong [of w1 w] profiler_Start_def)

subsection \<open>The log of a whole run\<close>

lemma Register_given_exporter:
  assumes "\<not> SkipObserve w" and "IsGCPEnabled w = (True, w1)" and "environ w1 = environ w"
    and "GetServiceInfo w = (projectID, svcName, svcVersion)"
    and "cfg = \<lparr>ConfigProjectID = projectID, Service = svcName, ServiceVersion = svcVersion\<rparr>"
    and "NewStackdriverExporter projectID onError w1 = ((exp, err), w2)"
    and "profilerStart w2 = profilerStart w"
  shows "\<exists>es3. calls (snd (RegisterAndObserveGCP onError w)) = calls w2 @ es3 \<and>
           (es3 = [] \<or>
            es3 = [EvTraceRegisterExporter exp, EvViewRegisterExporter exp, EvProfilerStart cfg] \<and>
            err = None \<and>
            exp \<in> trace_exporters (snd (RegisterAndObserveGCP onError w)) \<and>
            exp \<in> view_exporters (snd (RegisterAndObserveGCP onError w)) \<and>
            fst (RegisterAndObserveGCP onError w) =
              errors_Wrap (profilerStart w cfg) ''unable to initiate profiling client'')"
proof (cases err)
  case None
  with assms show ?thesis
    by (simp add: Register_exporter_ok [OF assms(1-4), of onError exp w2 cfg])
next
  case (Some e)
  with assms show ?thesis
    by (simp add: Register_exporter_error [OF assms(1-4), of onError exp e w2])
qed

lemma NewStackdriverExporter_calls:
  "\<exists>r es2. NewStackdriverExporter projectID onErr w = (r, w\<lparr>calls := calls w @ es2\<rparr>) \<and>
     (es2 = [EvFindDefaultCredentials] \<or> es2 = [EvFindDefaultCredentials, EvAutodetect] \<or>
      (\<exists>opts. es2 = [EvFindDefaultCredentials, EvAutodetect, EvNewExporter opts]))"
proof (cases "credentials w")
  case (Pair creds err)
  show ?thesis
  proof (cases err)
    case (Some e)
    with Pair show ?thesis
      by (auto simp add: NewStackdriverExporter_no_credentials logged_def)
  next
    case None
    show ?thesis
    proof (cases "IsGAE w \<or> autodetect w (count_calls is_Autodetect (calls w)) \<noteq> None")
      case True
      from NewStackdriverExporter_exportable [OF _ True, of creds projectID onErr] Pair None
      obtain opts where "NewStackdriverExporter projectID onErr w =
          (newExporter w opts,
           logged (EvNewExporter opts) (logged EvAutodetect (logged EvFindDefaultCredentials w)))"
        by auto
      then show ?thesis
        by (auto simp add: logged_def)
    next
      case False
      with Pair None show ?thesis
        by (auto simp add: NewStackdriverExporter_not_exportable logged_def)
    qed
  qed
qed

lemma Register_after_guards:
  assumes "\<not> SkipObserve w" and "IsGCPEnabled w = (True, w1)" and "w1 = w\<lparr>calls := calls w @ es1\<rparr>"
    and "GetServiceInfo w = (projectID, svcName, svcVersion)"
    and "cfg = \<lparr>ConfigProjectID = projectID, Service = svcName, ServiceVersion = svcVersion\<rparr>"
  shows "\<exists>es2 es3. calls (snd (RegisterAndObserveGCP onError w)) = calls w @ es1 @ es2 @ es3 \<and>
           (es2 = [EvFindDefaultCredentials] \<or> es2 = [EvFindDefaultCredentials, EvAutodetect] \<or>
            (\<exists>opts. es2 = [EvFindDefaultCredentials, EvAutodetect, EvNewExporter opts])) \<and>
           (es3 = [] \<or>
            (\<exists>exp. es3 = [EvTraceRegisterExporter exp, EvViewRegisterExporter exp, EvProfilerStart cfg] \<and>
              exp \<in> trace_exporters (snd (RegisterAndObserveGCP onError w)) \<and>
              exp \<in> view_exporters (snd (RegisterAndObserveGCP onError w)) \<and>
              fst (RegisterAndObserveGCP onError w) =
                errors_Wrap (profilerStart w cfg) ''unable to initiate profiling client''))"
proof -
  from assms(3) have env: "environ w1 = environ w" and ps: "profilerStart w1 = profilerStart w"
    and c1: "calls w1 = calls w @ es1"
    by simp_all
  from NewStackdriverExporter_calls [of projectID onError w1]
  obtain exp err es2 where
    nse: "NewStackdriverExporter projectID onError w1 = ((exp, err), w1\<lparr>calls := calls w1 @ es2\<rparr>)"
    and es2: "es2 = [EvFindDefaultCredentials] \<or> es2 = [EvFindDefaultCredentials, EvAutodetect] \<or>
      (\<exists>opts. es2 = [EvFindDefaultCredentials, EvAutodetect, EvNewExporter opts])"
    by (metis prod.collapse)
  have "profilerStart (w1\<lparr>calls := calls w1 @ es2\<rparr>) = profilerStart w"
    by (simp add: ps)
  from Register_given_exporter [OF assms(1,2) env assms(4,5) nse this]
  obtain es3 where
    "calls (snd (RegisterAndObserveGCP onError w)) = calls (w1\<lparr>calls := calls w1 @ es2\<rparr>) @ es3"
    and "es3 = [] \<or>
      es3 = [EvTraceRegisterExporter exp, EvViewRegisterExporter exp, EvProfilerStart cfg] \<and>
      err = None \<and>
      exp \<in> trace_exporters (snd (RegisterAndObserveGCP onError w)) \<and>
      exp \<in> view_exporters (snd (RegisterAndObserveGCP onError w)) \<and>
      fst (RegisterAndObserveGCP onError w) =
        errors_Wrap (profilerStart w cfg) ''unable to initiate profiling client''"
    by blast
  with es2 c1 show ?thesis
    by (intro exI [of _ es2] exI [of _ es3]) auto
qed

lemma Register_log:
  assumes "GetServiceInfo w = (projectID, svcName, svcVersion)"
    and "cfg = \<lparr>ConfigProjectID = projectID, Service = svcName, ServiceVersion = svcVersion\<rparr>"
  shows "\<exists>es1 es2 es3. calls (snd (RegisterAndObserveGCP onError w)) = calls w @ es1 @ es2 @ es3 \<and>
           (es1 = [] \<or> es1 = [EvAutodetect]) \<and>
           (es2 = [] \<or> es2 = [EvFindDefaultCredentials] \<or>
            es2 = [EvFindDefaultCredentials, EvAutodetect] \<or>
            (\<exists>opts. es2 = [EvFindDefaultCredentials, EvAutodetect, EvNewExporter opts])) \<and>
           (es3 = [] \<or>
            (\<exists>exp. es3 = [EvTraceRegisterExporter exp, EvViewRegisterExporter exp, EvProfilerStart cfg] \<and>
              exp \<in> trace_exporters (snd (RegisterAndObserveGCP onError w)) \<and>
              exp \<in> view_exporters (snd (RegisterAndObserveGCP onError w)) \<and>
              fst (RegisterAndObserveGCP onError w) =
                errors_Wrap (profilerStart w cfg) ''unable to initiate profiling client''))"
    (is "\<exists>es1 es2 es3. ?shape es1 es2 es3")
proof (cases "SkipObserve w")
  case True
  then have "?shape [] [] []"
    by (simp add: RegisterAndObserveGCP_def)
  then show ?thesis by blast
next
  case skip: False
  show ?thesis
  proof (cases "IsGAE w")
    case True
    then have en: "IsGCPEnabled w = (True, w)"
      by (rule IsGCPEnabled_GAE)
    have "w = w\<lparr>calls := calls w @ []\<rparr>" by simp
    from Register_after_guards [OF skip en this assms, of onError]
    obtain es2 es3 where "?shape [] es2 es3"
      by auto
    then show ?thesis by blast
  next
    case gae: False
    show ?thesis
    proof (cases "autodetect w (count_calls is_Autodetect (calls w)) = None")
      case True
      with gae have "IsGCPEnabled w = (False, logged EvAutodetect w)"
        by (simp add: IsGCPEnabled_not_GAE)
      with skip have "?shape [EvAutodetect] [] []"
        by (simp add: RegisterAndObserveGCP_def)
      then show ?thesis by blast
    next
      case False
      with gae have en: "IsGCPEnabled w = (True, logged EvAutodetect w)"
        by (simp add: IsGCPEnabled_not_GAE)
      have "logged EvAutodetect w = w\<lparr>calls := calls w @ [EvAutodetect]\<rparr>"
        by (simp add: logged_def)
      from Register_after_guards [OF skip en this assms, of onError]
      obtain es2 es3 where "?shape [EvAutodetect] es2 es3"
        by auto
      then show ?thesis by blast
    qed
  qed
qed

lemma Register_full_run:
  assumes skip: "\<not> SkipObserve w"
    and creds: "credentials w = (creds, None)"
    and factory: "\<forall>opts. snd (newExporter w opts) = None"
    and platform: "IsGAE w \<or>
      autodetect w (count_calls is_Autodetect (calls w)) \<noteq> None \<and>
      autodetect w (Suc (count_calls is_Autodetect (calls w))) \<noteq> None"
    and info: "GetServiceInfo w = (projectID, svcName, svcVersion)"
    and cfg: "cfg = \<lparr>ConfigProjectID = projectID, Service = svcName, ServiceVersion = svcVersion\<rparr>"
  shows "\<exists>opts exp. calls (snd (RegisterAndObserveGCP onError w)) =
           calls w @ (if IsGAE w then [] else [EvAutodetect]) @
           [EvFindDefaultCredentials, EvAutodetect, EvNewExporter opts,
            EvTraceRegisterExporter exp, EvViewRegisterExporter exp, EvProfilerStart cfg]"
proof -
  define w1 where "w1 = (if IsGAE w then w else logged EvAutodetect w)"
  have en: "IsGCPEnabled w = (True, w1)"
    using platform by (auto simp: w1_def IsGCPEnabled_GAE IsGCPEnabled_not_GAE)
  have env: "environ w1 = environ w" and c1: "credentials w1 = (creds, None)"
    and ne: "newExporter w1 = newExporter w"
    and calls1: "calls w1 = calls w @ (if IsGAE w then [] else [EvAutodetect])"
    using creds by (simp_all add: w1_def)
  have gae1: "IsGAE w1 = IsGAE w"
    using env by (rule IsGAE_cong)
  have "IsGAE w1 \<or> autodetect w1 (count_calls is_Autodetect (calls w1)) \<noteq> None"
  proof (cases "IsGAE w")
    case True
    with gae1 show ?thesis by simp
  next
    case False
    with platform show ?thesis by (simp add: w1_def)
  qed
  from NewStackdriverExporter_exportable [OF c1 this, of projectID onError]
  obtain opts where nse: "NewStackdriverExporter projectID onError w1 =
      (newExporter w1 opts,
       logged (EvNewExporter opts) (logged EvAutodetect (logged EvFindDefaultCredentials w1)))"
    by blast
  from factory ne have "snd (newExporter w1 opts) = None"
    by simp
  then obtain exp where "newExporter w1 opts = (exp, None)"
    by (cases "newExporter w1 opts") simp
  with nse have "NewStackdriverExporter projectID onError w1 =
      ((exp, None),
       logged (EvNewExporter opts) (logged EvAutodetect (logged EvFindDefaultCredentials w1)))"
    by simp
  from Register_exporter_ok [OF skip en env info this cfg] calls1
  have "calls (snd (RegisterAndObserveGCP onError w)) =
           calls w @ (if IsGAE w then [] else [EvAutodetect]) @
           [EvFindDefaultCredentials, EvAutodetect, EvNewExporter opts,
            EvTraceRegisterExporter exp, EvViewRegisterExporter exp, EvProfilerStart cfg]"
    by simp
  then show ?thesis by blast
qed

text \<open>The definitions to unfold when a run on an example world is evaluated.\<close>

lemmas run_defs = RegisterAndObserveGCP_def SkipObserve_def IsGCPEnabled_def IsGAE_def
  GetServiceInfo_def GetGAEInfo_def GoogleProjectID_def NewStackdriverExporter_def getSDOpts_def
  google_FindDefaultCredentials_def monitoredresource_Autodetect_def stackdriver_NewExporter_def
  profiler_Start_def errors_New_def errors_Wrap_def os_Getenv_def

text \<open>The fields of an example world, and reading a variable of it.\<close>

lemma fresh_fields [simp]:
  "environ (fresh vars cr ad ne ps) = map_of vars"
  "credentials (fresh vars cr ad ne ps) = cr"
  "autodetect (fresh vars cr ad ne ps) = ad"
  "newExporter (fresh vars cr ad ne ps) = ne"
  "profilerStart (fresh vars cr ad ne ps) = ps"
  "calls (fresh vars cr ad ne ps) = []"
  "trace_exporters (fresh vars cr ad ne ps) = {}"
  "view_exporters (fresh vars cr ad ne ps) = {}"
  by (simp_all add: fresh_def)

lemma eval_env [simp]:
  "os_Getenv (fresh vars cr ad ne ps) k = (case map_of vars k of None \<Rightarrow> [] | Some v \<Rightarrow> v)"
  by (simp add: os_Getenv_def)

subsection \<open>Opting out\<close>

text \<open>
  Claim C1. Whenever \<^verbatim>\<open>GIZMO_SKIP_OBSERVE\<close> is non-empty, \<^verbatim>\<open>RegisterAndObserveGCP\<close> returns
  a nil error and the world as it found it: no collaborator is called (the exporter
  factory, the two registries, the profiler, credential discovery and resource
  autodetection all stay out of the log).
\<close>

theorem skip_returns_nil_without_calls:
  assumes "os_Getenv w ''GIZMO_SKIP_OBSERVE'' \<noteq> []"
  shows "RegisterAndObserveGCP onError w = (None, w) \<and>
         new_calls w (snd (RegisterAndObserveGCP onError w)) = []"
  using assms by (simp add: RegisterAndObserveGCP_def SkipObserve_def new_calls_def)

text \<open>With \<^verbatim>\<open>GIZMO_SKIP_OBSERVE=1\<close>, on a machine where everything else would succeed.\<close>

theorem skip_returns_nil_without_calls_witness:
  "os_Getenv (fresh [(''GIZMO_SKIP_OBSERVE'', ''1'')] found_credentials gce_instance exporter_ok profiler_ok)
     ''GIZMO_SKIP_OBSERVE'' \<noteq> [] \<and>
   fst (RegisterAndObserveGCP (ErrorFunc 0)
     (fresh [(''GIZMO_SKIP_OBSERVE'', ''1'')] found_credentials gce_instance exporter_ok profiler_ok)) = None \<and>
   calls (snd (RegisterAndObserveGCP (ErrorFunc 0)
     (fresh [(''GIZMO_SKIP_OBSERVE'', ''1'')] found_credentials gce_instance exporter_ok profiler_ok))) = []"
proof -
  let ?w = "fresh [(''GIZMO_SKIP_OBSERVE'', ''1'')] found_credentials gce_instance exporter_ok profiler_ok"
  have set: "os_Getenv ?w ''GIZMO_SKIP_OBSERVE'' \<noteq> []"
    by simp
  have "calls ?w = []"
    by (simp add: fresh_def)
  with set skip_returns_nil_without_calls [OF set, of "ErrorFunc 0"] show ?thesis
    by simp
qed

subsection \<open>Unsupported platform\<close>

text \<open>
  Claim C2. When \<^verbatim>\<open>GIZMO_SKIP_OBSERVE\<close> and \<^verbatim>\<open>GAE_DEPLOYMENT_ID\<close> are empty and resource
  autodetection returns no descriptor, \<^verbatim>\<open>IsGCPEnabled\<close> is false and
  \<^verbatim>\<open>RegisterAndObserveGCP\<close> returns the error "environment is not GCP enabled, no observe
  tools will be run"; the only collaborator called is the autodetection itself, so no
  exporter is constructed and the profiler is not started.
\<close>

theorem no_platform_is_an_error:
  assumes "os_Getenv w ''GIZMO_SKIP_OBSERVE'' = []"
      and "os_Getenv w ''GAE_DEPLOYMENT_ID'' = []"
      and "fst (monitoredresource_Autodetect w) = None"
  shows "\<not> fst (IsGCPEnabled w) \<and>
         fst (RegisterAndObserveGCP onError w) =
           Some (New ''environment is not GCP enabled, no observe tools will be run'') \<and>
         new_calls w (snd (RegisterAndObserveGCP onError w)) = [EvAutodetect]"
proof -
  from assms(2) have gae: "\<not> IsGAE w"
    by (simp add: IsGAE_def)
  from assms(3) have "autodetect w (count_calls is_Autodetect (calls w)) = None"
    by (simp add: monitoredresource_Autodetect_def)
  with gae have en: "IsGCPEnabled w = (False, logged EvAutodetect w)"
    by (simp add: IsGCPEnabled_not_GAE)
  with assms(1) have "RegisterAndObserveGCP onError w =
      (Some (New ''environment is not GCP enabled, no observe tools will be run''), logged EvAutodetect w)"
    by (simp add: RegisterAndObserveGCP_def SkipObserve_def errors_New_def)
  with en show ?thesis
    by (simp add: new_calls_append)
qed

text \<open>Outside App Engine, with credentials but without a detectable resource.\<close>

theorem no_platform_is_an_error_witness:
  "os_Getenv (fresh gce_env found_credentials no_resource exporter_ok profiler_ok) ''GIZMO_SKIP_OBSERVE'' = [] \<and>
   os_Getenv (fresh gce_env found_credentials no_resource exporter_ok profiler_ok) ''GAE_DEPLOYMENT_ID'' = [] \<and>
   fst (monitoredresource_Autodetect (fresh gce_env found_credentials no_resource exporter_ok profiler_ok)) = None \<and>
   fst (RegisterAndObserveGCP (ErrorFunc 0) (fresh gce_env found_credentials no_resource exporter_ok profiler_ok)) =
     Some (New ''environment is not GCP enabled, no observe tools will be run'') \<and>
   calls (snd (RegisterAndObserveGCP (ErrorFunc 0) (fresh gce_env found_credentials no_resource exporter_ok profiler_ok))) =
     [EvAutodetect]"
proof -
  let ?w = "fresh gce_env found_credentials no_resource exporter_ok profiler_ok"
  have a: "os_Getenv ?w ''GIZMO_SKIP_OBSERVE'' = []"
    by (simp add: gce_env_def)
  have b: "os_Getenv ?w ''GAE_DEPLOYMENT_ID'' = []"
    by (simp add: gce_env_def)
  have c: "fst (monitoredresource_Autodetect ?w) = None"
    by (simp add: monitoredresource_Autodetect_def fresh_def no_resource_def)
  have d: "calls ?w = []"
    by (simp add: fresh_def)
  from no_platform_is_an_error [OF a b c, of "ErrorFunc 0"] a b c d show ?thesis
    by (simp add: new_calls_def)
qed

subsection \<open>Service information\<close>

text \<open>
  Claim C3. \<^verbatim>\<open>GetServiceInfo\<close> branches on \<^verbatim>\<open>GAE_DEPLOYMENT_ID\<close> alone: when it is
  non-empty the result is that of \<^verbatim>\<open>GetGAEInfo\<close>, with service and version from
  \<^verbatim>\<open>GAE_SERVICE\<close> and \<^verbatim>\<open>GAE_VERSION\<close> whatever \<^verbatim>\<open>SERVICE_NAME\<close> and \<^verbatim>\<open>SERVICE_VERSION\<close>
  hold; when it is empty the result is
  \<^verbatim>\<open>(GoogleProjectID(), SERVICE_NAME, SERVICE_VERSION)\<close>.
\<close>

theorem GetServiceInfo_two_way:
  "(os_Getenv w ''GAE_DEPLOYMENT_ID'' \<noteq> [] \<longrightarrow>
      GetServiceInfo w = GetGAEInfo w \<and>
      snd (GetServiceInfo w) = (os_Getenv w ''GAE_SERVICE'', os_Getenv w ''GAE_VERSION'')) \<and>
   (os_Getenv w ''GAE_DEPLOYMENT_ID'' = [] \<longrightarrow>
      GetServiceInfo w =
        (GoogleProjectID w, os_Getenv w ''SERVICE_NAME'', os_Getenv w ''SERVICE_VERSION''))"
  by (simp add: GetServiceInfo_def IsGAE_def GetGAEInfo_def)

text \<open>On App Engine with the generic variables set too, and outside App Engine.\<close>

theorem GetServiceInfo_two_way_witness:
  "os_Getenv (fresh gae_env found_credentials no_resource exporter_ok profiler_ok) ''GAE_DEPLOYMENT_ID'' \<noteq> [] \<and>
   os_Getenv (fresh gae_env found_credentials no_resource exporter_ok profiler_ok) ''SERVICE_NAME'' = ''api'' \<and>
   os_Getenv (fresh gae_env found_credentials no_resource exporter_ok profiler_ok) ''SERVICE_VERSION'' = ''0.1'' \<and>
   snd (GetServiceInfo (fresh gae_env found_credentials no_resource exporter_ok profiler_ok)) = (''web'', ''v7'') \<and>
   os_Getenv (fresh gce_env found_credentials gce_instance exporter_ok profiler_ok) ''GAE_DEPLOYMENT_ID'' = [] \<and>
   GetServiceInfo (fresh gce_env found_credentials gce_instance exporter_ok profiler_ok) = (''nyt-proj'', ''api'', ''0.1'')"
proof -
  let ?a = "fresh gae_env found_credentials no_resource exporter_ok profiler_ok"
  let ?c = "fresh gce_env found_credentials gce_instance exporter_ok profiler_ok"
  have a: "os_Getenv ?a ''GAE_DEPLOYMENT_ID'' \<noteq> []"
    by (simp add: gae_env_def)
  have c: "os_Getenv ?c ''GAE_DEPLOYMENT_ID'' = []"
    by (simp add: gce_env_def)
  from GetServiceInfo_two_way [of ?a] a
  have "snd (GetServiceInfo ?a) = (os_Getenv ?a ''GAE_SERVICE'', os_Getenv ?a ''GAE_VERSION'')"
    by blast
  moreover from GetServiceInfo_two_way [of ?c] c
  have "GetServiceInfo ?c = (GoogleProjectID ?c, os_Getenv ?c ''SERVICE_NAME'', os_Getenv ?c ''SERVICE_VERSION'')"
    by blast
  ultimately show ?thesis using a c
    by (simp add: GoogleProjectID_def gae_env_def gce_env_def)
qed

text \<open>
  Claim C10, as the code has it. \<^verbatim>\<open>GetGAEInfo\<close> returns the values of
  \<^verbatim>\<open>GOOGLE_CLOUD_PROJECT\<close>, \<^verbatim>\<open>GAE_SERVICE\<close> and \<^verbatim>\<open>GAE_VERSION\<close>: service and version come
  from App Engine's own variables, the project ID is \<^verbatim>\<open>GoogleProjectID()\<close>, the same
  generic variable that \<^verbatim>\<open>GetServiceInfo\<close> reads outside App Engine.
\<close>

theorem GetGAEInfo_reads:
  "GetGAEInfo w =
     (os_Getenv w ''GOOGLE_CLOUD_PROJECT'', os_Getenv w ''GAE_SERVICE'', os_Getenv w ''GAE_VERSION'') \<and>
   fst (GetGAEInfo w) = GoogleProjectID w \<and>
   fst (GetGAEInfo w) = fst (GetServiceInfo w)"
  by (simp add: GetGAEInfo_def GoogleProjectID_def GetServiceInfo_def)

text \<open>
  Claim C10 as stated, with the project ID taken from a variable of App Engine's own
  rather than from the generic one, fails: two App Engine environments that differ in
  \<^verbatim>\<open>GOOGLE_CLOUD_PROJECT\<close> only give different project IDs.
\<close>

theorem GetGAEInfo_project_is_generic_counterexample:
  "fst (GetGAEInfo (fresh [(''GAE_DEPLOYMENT_ID'', ''425661''), (''GAE_SERVICE'', ''web''),
                           (''GAE_VERSION'', ''v7''), (''GOOGLE_CLOUD_PROJECT'', ''proj-a'')]
                      found_credentials no_resource exporter_ok profiler_ok)) \<noteq>
   fst (GetGAEInfo (fresh [(''GAE_DEPLOYMENT_ID'', ''425661''), (''GAE_SERVICE'', ''web''),
                           (''GAE_VERSION'', ''v7''), (''GOOGLE_CLOUD_PROJECT'', ''proj-b'')]
                      found_credentials no_resource exporter_ok profiler_ok))"
  by (simp add: GetGAEInfo_def GoogleProjectID_def)

subsection \<open>Building the exporter\<close>

text \<open>
  Claim C4. When credential discovery fails, \<^verbatim>\<open>getSDOpts\<close> returns nil and
  \<^verbatim>\<open>NewStackdriverExporter\<close> returns \<^verbatim>\<open>(nil, nil)\<close>, whatever \<^verbatim>\<open>GAE_DEPLOYMENT_ID\<close> holds
  and whatever autodetection would answer: credential discovery is the only call made.
\<close>

theorem no_credentials_no_exporter_no_error:
  assumes "snd (fst (google_FindDefaultCredentials w)) \<noteq> None"
  shows "fst (getSDOpts projectID service version onErr w) = None \<and>
         fst (NewStackdriverExporter projectID onErr w) = (None, None) \<and>
         new_calls w (snd (NewStackdriverExporter projectID onErr w)) = [EvFindDefaultCredentials]"
proof -
  from assms have "snd (credentials w) \<noteq> None"
    by (simp add: google_FindDefaultCredentials_def)
  then show ?thesis
    by (simp add: NewStackdriverExporter_no_credentials getSDOpts_no_credentials new_calls_append)
qed

text \<open>On App Engine, with a resource that would be detected, but without credentials.\<close>

theorem no_credentials_no_exporter_no_error_witness:
  "snd (fst (google_FindDefaultCredentials
     (fresh gae_env no_credentials gce_instance exporter_ok profiler_ok))) \<noteq> None \<and>
   os_Getenv (fresh gae_env no_credentials gce_instance exporter_ok profiler_ok) ''GAE_DEPLOYMENT_ID'' \<noteq> [] \<and>
   fst (monitoredresource_Autodetect
     (fresh gae_env no_credentials gce_instance exporter_ok profiler_ok)) \<noteq> None \<and>
   fst (NewStackdriverExporter ''nyt-proj'' (ErrorFunc 0)
     (fresh gae_env no_credentials gce_instance exporter_ok profiler_ok)) = (None, None) \<and>
   calls (snd (NewStackdriverExporter ''nyt-proj'' (ErrorFunc 0)
     (fresh gae_env no_credentials gce_instance exporter_ok profiler_ok))) = [EvFindDefaultCredentials]"
proof -
  let ?w = "fresh gae_env no_credentials gce_instance exporter_ok profiler_ok"
  have a: "snd (fst (google_FindDefaultCredentials ?w)) \<noteq> None"
    by (simp add: google_FindDefaultCredentials_def fresh_def no_credentials_def)
  have b: "os_Getenv ?w ''GAE_DEPLOYMENT_ID'' \<noteq> []"
    by (simp add: gae_env_def)
  have c: "fst (monitoredresource_Autodetect ?w) \<noteq> None"
    by (simp add: monitoredresource_Autodetect_def fresh_def gce_instance_def)
  have d: "calls ?w = []"
    by (simp add: fresh_def)
  from no_credentials_no_exporter_no_error [OF a, of "''nyt-proj''" "''web''" "''v7''" "ErrorFunc 0"] a b c d
  show ?thesis
    by (simp add: new_calls_def)
qed

text \<open>
  Claim C5. If \<^verbatim>\<open>getSDOpts\<close> returns options, then \<^verbatim>\<open>GAE_DEPLOYMENT_ID\<close> is non-empty or
  autodetection returned a descriptor; the options carry exactly what autodetection
  returned, on App Engine as well; and credential discovery did not fail.
\<close>

theorem getSDOpts_only_when_exportable:
  assumes "fst (getSDOpts projectID service version onErr w) = Some opts"
  shows "(os_Getenv w ''GAE_DEPLOYMENT_ID'' \<noteq> [] \<or> fst (monitoredresource_Autodetect w) \<noteq> None) \<and>
         MonitoredResource opts = fst (monitoredresource_Autodetect w) \<and>
         snd (credentials w) = None"
proof (cases "credentials w")
  case (Pair creds err)
  show ?thesis
  proof (cases err)
    case None
    with Pair assms show ?thesis
      by (auto simp: getSDOpts_credentials IsGAE_def monitoredresource_Autodetect_def
          split: if_splits)
  next
    case (Some e)
    with Pair assms show ?thesis
      by (simp add: getSDOpts_no_credentials)
  qed
qed

text \<open>On App Engine with a detected resource: the descriptor is kept.\<close>

theorem getSDOpts_only_when_exportable_witness:
  "(\<exists>opts. fst (getSDOpts ''nyt-proj'' ''web'' ''v7'' (ErrorFunc 0)
       (fresh gae_env found_credentials gce_instance exporter_ok profiler_ok)) = Some opts \<and>
     MonitoredResource opts = Some (Resource ''gce_instance'')) \<and>
   os_Getenv (fresh gae_env found_credentials gce_instance exporter_ok profiler_ok) ''GAE_DEPLOYMENT_ID'' \<noteq> []"
proof -
  let ?w = "fresh gae_env found_credentials gce_instance exporter_ok profiler_ok"
  have c: "credentials ?w = (Some (Credentials ''service-account''), None)"
    by (simp add: fresh_def found_credentials_def)
  have m: "fst (monitoredresource_Autodetect ?w) = Some (Resource ''gce_instance'')"
    by (simp add: monitoredresource_Autodetect_def fresh_def gce_instance_def)
  then have "autodetect ?w (count_calls is_Autodetect (calls ?w)) \<noteq> None"
    by (simp add: monitoredresource_Autodetect_def)
  then obtain opts where o: "fst (getSDOpts ''nyt-proj'' ''web'' ''v7'' (ErrorFunc 0) ?w) = Some opts"
    by (simp add: getSDOpts_credentials [OF c])
  from getSDOpts_only_when_exportable [OF o] m
  have "MonitoredResource opts = Some (Resource ''gce_instance'')"
    by simp
  moreover have "os_Getenv ?w ''GAE_DEPLOYMENT_ID'' \<noteq> []"
    by (simp add: gae_env_def)
  ultimately show ?thesis using o
    by blast
qed

text \<open>
  Claim C6. With \<^verbatim>\<open>GAE_DEPLOYMENT_ID\<close> empty, a descriptor \<open>m\<close> from autodetection and
  credentials \<open>creds\<close> found, \<^verbatim>\<open>NewStackdriverExporter\<close> hands the exporter factory the
  options with the given project ID, the descriptor, the credentials in both client
  option lists, the given callback, and the default trace attributes
  \<^verbatim>\<open>{service: SERVICE_NAME, version: SERVICE_VERSION}\<close> and no other.
\<close>

theorem NewStackdriverExporter_generic_attributes:
  assumes "os_Getenv w ''GAE_DEPLOYMENT_ID'' = []"
      and "fst (monitoredresource_Autodetect w) = Some m"
      and "fst (google_FindDefaultCredentials w) = (creds, None)"
  shows "NewStackdriverExporter projectID onErr w =
           stackdriver_NewExporter
             \<lparr>ProjectID = projectID,
              MonitoredResource = Some m,
              MonitoringClientOptions = [WithCredentials creds],
              TraceClientOptions = [WithCredentials creds],
              OnError = onErr,
              DefaultTraceAttributes =
                [''service'' \<mapsto> os_Getenv w ''SERVICE_NAME'',
                 ''version'' \<mapsto> os_Getenv w ''SERVICE_VERSION'']\<rparr>
             (logged EvAutodetect (logged EvFindDefaultCredentials w))"
proof -
  from assms(3) have c: "credentials w = (creds, None)"
    by (simp add: google_FindDefaultCredentials_def)
  from assms(2) have m: "autodetect w (count_calls is_Autodetect (calls w)) = Some m"
    by (simp add: monitoredresource_Autodetect_def)
  from assms(1) have s: "GetServiceInfo w =
      (GoogleProjectID w, os_Getenv w ''SERVICE_NAME'', os_Getenv w ''SERVICE_VERSION'')"
    by (simp add: GetServiceInfo_def IsGAE_def)
  show ?thesis
    by (simp add: NewStackdriverExporter_def s getSDOpts_credentials [OF c] m)
qed

text \<open>On a Compute Engine instance.\<close>

theorem NewStackdriverExporter_generic_attributes_witness:
  "os_Getenv (fresh gce_env found_credentials gce_instance exporter_ok profiler_ok) ''GAE_DEPLOYMENT_ID'' = [] \<and>
   fst (monitoredresource_Autodetect (fresh gce_env found_credentials gce_instance exporter_ok profiler_ok)) =
     Some (Resource ''gce_instance'') \<and>
   fst (google_FindDefaultCredentials (fresh gce_env found_credentials gce_instance exporter_ok profiler_ok)) =
     (Some (Credentials ''service-account''), None) \<and>
   fst (NewStackdriverExporter ''nyt-proj'' (ErrorFunc 7)
     (fresh gce_env found_credentials gce_instance exporter_ok profiler_ok)) = (Some (Exporter 1), None) \<and>
   calls (snd (NewStackdriverExporter ''nyt-proj'' (ErrorFunc 7)
     (fresh gce_env found_credentials gce_instance exporter_ok profiler_ok))) =
     [EvFindDefaultCredentials, EvAutodetect,
      EvNewExporter
        \<lparr>ProjectID = ''nyt-proj'',
         MonitoredResource = Some (Resource ''gce_instance''),
         MonitoringClientOptions = [WithCredentials (Some (Credentials ''service-account''))],
         TraceClientOptions = [WithCredentials (Some (Credentials ''service-account''))],
         OnError = ErrorFunc 7,
         DefaultTraceAttributes = [''service'' \<mapsto> ''api'', ''version'' \<mapsto> ''0.1'']\<rparr>]"
proof -
  let ?w = "fresh gce_env found_credentials gce_instance exporter_ok profiler_ok"
  have a: "os_Getenv ?w ''GAE_DEPLOYMENT_ID'' = []"
    by (simp add: gce_env_def)
  have b: "fst (monitoredresource_Autodetect ?w) = Some (Resource ''gce_instance'')"
    by (simp add: monitoredresource_Autodetect_def fresh_def gce_instance_def)
  have c: "fst (google_FindDefaultCredentials ?w) = (Some (Credentials ''service-account''), None)"
    by (simp add: google_FindDefaultCredentials_def fresh_def found_credentials_def)
  from NewStackdriverExporter_generic_attributes [OF a b c, of "''nyt-proj''" "ErrorFunc 7"] a b c
  show ?thesis
    by (simp add: stackdriver_NewExporter_def exporter_ok_def gce_env_def)
qed

subsection \<open>Registration and the profiler\<close>

text \<open>
  Claim C7. In a run of \<^verbatim>\<open>RegisterAndObserveGCP\<close> that starts the profiler, the start is
  the last call and the only profiler start of the run; directly before it the same
  exporter value was registered with the trace registry and then with the metrics-view
  registry. Whatever the profiler answers, both registrations are in the registries of the
  final state: when the profiler fails with \<open>e\<close>, the run returns \<open>e\<close> wrapped with
  "unable to initiate profiling client" and the registrations stay.
\<close>

theorem profiler_last_no_rollback:
  assumes "EvProfilerStart cfg \<in> set (new_calls w (snd (RegisterAndObserveGCP onError w)))"
  shows "\<exists>pre exp.
           new_calls w (snd (RegisterAndObserveGCP onError w)) =
             pre @ [EvTraceRegisterExporter exp, EvViewRegisterExporter exp, EvProfilerStart cfg] \<and>
           count_calls is_ProfilerStart pre = 0 \<and>
           exp \<in> trace_exporters (snd (RegisterAndObserveGCP onError w)) \<and>
           exp \<in> view_exporters (snd (RegisterAndObserveGCP onError w)) \<and>
           fst (RegisterAndObserveGCP onError w) =
             errors_Wrap (profilerStart w cfg) ''unable to initiate profiling client'' \<and>
           (\<forall>e. profilerStart w cfg = Some e \<longrightarrow>
              fst (RegisterAndObserveGCP onError w) =
                Some (Wrapped e ''unable to initiate profiling client''))"
proof -
  obtain projectID svcName svcVersion where info: "GetServiceInfo w = (projectID, svcName, svcVersion)"
    by (cases "GetServiceInfo w")
  define cfg' where
    "cfg' = \<lparr>ConfigProjectID = projectID, Service = svcName, ServiceVersion = svcVersion\<rparr>"
  from Register_log [OF info cfg'_def, of onError]
  obtain es1 es2 es3 where
    log: "calls (snd (RegisterAndObserveGCP onError w)) = calls w @ es1 @ es2 @ es3"
    and es1: "es1 = [] \<or> es1 = [EvAutodetect]"
    and es2: "es2 = [] \<or> es2 = [EvFindDefaultCredentials] \<or>
            es2 = [EvFindDefaultCredentials, EvAutodetect] \<or>
            (\<exists>opts. es2 = [EvFindDefaultCredentials, EvAutodetect, EvNewExporter opts])"
    and es3: "es3 = [] \<or>
            (\<exists>exp. es3 = [EvTraceRegisterExporter exp, EvViewRegisterExporter exp, EvProfilerStart cfg'] \<and>
              exp \<in> trace_exporters (snd (RegisterAndObserveGCP onError w)) \<and>
              exp \<in> view_exporters (snd (RegisterAndObserveGCP onError w)) \<and>
              fst (RegisterAndObserveGCP onError w) =
                errors_Wrap (profilerStart w cfg') ''unable to initiate profiling client'')"
    by blast
  from log have new: "new_calls w (snd (RegisterAndObserveGCP onError w)) = es1 @ es2 @ es3"
    by (rule new_calls_append)
  from es1 es2 have pre: "count_calls is_ProfilerStart (es1 @ es2) = 0"
    and notin: "EvProfilerStart cfg \<notin> set (es1 @ es2)"
    by auto
  from assms new notin have in3: "EvProfilerStart cfg \<in> set es3"
    by auto
  with es3 obtain exp where
    e3: "es3 = [EvTraceRegisterExporter exp, EvViewRegisterExporter exp, EvProfilerStart cfg']"
    and reg: "exp \<in> trace_exporters (snd (RegisterAndObserveGCP onError w))"
      "exp \<in> view_exporters (snd (RegisterAndObserveGCP onError w))"
    and res: "fst (RegisterAndObserveGCP onError w) =
                errors_Wrap (profilerStart w cfg') ''unable to initiate profiling client''"
    by auto
  from in3 e3 have same: "cfg' = cfg"
    by simp
  from new e3 same have
    "new_calls w (snd (RegisterAndObserveGCP onError w)) =
       (es1 @ es2) @ [EvTraceRegisterExporter exp, EvViewRegisterExporter exp, EvProfilerStart cfg]"
    by simp
  with pre reg res same show ?thesis
    by (intro exI [of _ "es1 @ es2"] exI [of _ exp]) (simp add: errors_Wrap_def)
qed

text \<open>
  On a Compute Engine instance whose profiler agent cannot start: the error is returned
  and the exporter is in both registries.
\<close>

theorem profiler_last_no_rollback_witness:
  "EvProfilerStart \<lparr>ConfigProjectID = ''nyt-proj'', Service = ''api'', ServiceVersion = ''0.1''\<rparr>
     \<in> set (new_calls (fresh gce_env found_credentials gce_instance exporter_ok profiler_down)
           (snd (RegisterAndObserveGCP (ErrorFunc 0)
             (fresh gce_env found_credentials gce_instance exporter_ok profiler_down)))) \<and>
   fst (RegisterAndObserveGCP (ErrorFunc 0)
     (fresh gce_env found_credentials gce_instance exporter_ok profiler_down)) =
     Some (Wrapped (External ''profiler agent unavailable'') ''unable to initiate profiling client'') \<and>
   trace_exporters (snd (RegisterAndObserveGCP (ErrorFunc 0)
     (fresh gce_env found_credentials gce_instance exporter_ok profiler_down))) = {Some (Exporter 1)} \<and>
   view_exporters (snd (RegisterAndObserveGCP (ErrorFunc 0)
     (fresh gce_env found_credentials gce_instance exporter_ok profiler_down))) = {Some (Exporter 1)}"
proof -
  let ?w = "fresh gce_env found_credentials gce_instance exporter_ok profiler_down"
  let ?cfg = "\<lparr>ConfigProjectID = ''nyt-proj'', Service = ''api'', ServiceVersion = ''0.1''\<rparr>"
  have run: "snd (RegisterAndObserveGCP (ErrorFunc 0) ?w) =
      logged (EvProfilerStart ?cfg)
        (view_RegisterExporter (Some (Exporter 1))
          (trace_RegisterExporter (Some (Exporter 1))
            (logged (EvNewExporter
                \<lparr>ProjectID = ''nyt-proj'',
                 MonitoredResource = Some (Resource ''gce_instance''),
                 MonitoringClientOptions = [WithCredentials (Some (Credentials ''service-account''))],
                 TraceClientOptions = [WithCredentials (Some (Credentials ''service-account''))],
                 OnError = ErrorFunc 0,
                 DefaultTraceAttributes = [''service'' \<mapsto> ''api'', ''version'' \<mapsto> ''0.1'']\<rparr>)
              (logged EvAutodetect (logged EvFindDefaultCredentials (logged EvAutodetect ?w))))))"
    by (simp add: run_defs gce_env_def found_credentials_def gce_instance_def exporter_ok_def)
  have started: "EvProfilerStart ?cfg \<in> set (new_calls ?w (snd (RegisterAndObserveGCP (ErrorFunc 0) ?w)))"
    by (simp add: run new_calls_def)
  have down: "profilerStart ?w ?cfg = Some (External ''profiler agent unavailable'')"
    by (simp add: profiler_down_def)
  from profiler_last_no_rollback [OF started] down
  have "fst (RegisterAndObserveGCP (ErrorFunc 0) ?w) =
      Some (Wrapped (External ''profiler agent unavailable'') ''unable to initiate profiling client'')"
    by blast
  moreover have "trace_exporters (snd (RegisterAndObserveGCP (ErrorFunc 0) ?w)) = {Some (Exporter 1)}"
    "view_exporters (snd (RegisterAndObserveGCP (ErrorFunc 0) ?w)) = {Some (Exporter 1)}"
    by (simp_all add: run)
  ultimately show ?thesis using started
    by simp
qed

text \<open>
  Claim C8. With \<^verbatim>\<open>GIZMO_SKIP_OBSERVE\<close> empty, \<^verbatim>\<open>IsGCPEnabled\<close> true and credential discovery
  failing, \<^verbatim>\<open>NewStackdriverExporter\<close> returns \<^verbatim>\<open>(nil, nil)\<close> and the run goes on: after the
  calls of \<^verbatim>\<open>IsGCPEnabled\<close> and the credential discovery, the nil exporter is registered
  with the trace registry and with the metrics-view registry, and the profiler is started
  with the service information; the run returns what the profiler start returns, wrapped
  (nil when the profiler starts).
\<close>

theorem nil_exporter_registered_without_credentials:
  assumes "os_Getenv w ''GIZMO_SKIP_OBSERVE'' = []"
      and "fst (IsGCPEnabled w)"
      and "snd (fst (google_FindDefaultCredentials w)) \<noteq> None"
      and "GetServiceInfo w = (projectID, svcName, svcVersion)"
  shows "fst (NewStackdriverExporter projectID onError (snd (IsGCPEnabled w))) = (None, None) \<and>
         new_calls w (snd (RegisterAndObserveGCP onError w)) =
           new_calls w (snd (IsGCPEnabled w)) @
           [EvFindDefaultCredentials, EvTraceRegisterExporter None, EvViewRegisterExporter None,
            EvProfilerStart
              \<lparr>ConfigProjectID = projectID, Service = svcName, ServiceVersion = svcVersion\<rparr>] \<and>
         None \<in> trace_exporters (snd (RegisterAndObserveGCP onError w)) \<and>
         None \<in> view_exporters (snd (RegisterAndObserveGCP onError w)) \<and>
         fst (RegisterAndObserveGCP onError w) =
           errors_Wrap
             (profilerStart w
                \<lparr>ConfigProjectID = projectID, Service = svcName, ServiceVersion = svcVersion\<rparr>)
             ''unable to initiate profiling client''"
proof -
  define w1 where "w1 = snd (IsGCPEnabled w)"
  define es1 where "es1 = (if IsGAE w then [] else [EvAutodetect])"
  let ?cfg = "\<lparr>ConfigProjectID = projectID, Service = svcName, ServiceVersion = svcVersion\<rparr>"
  from assms(1) have skip: "\<not> SkipObserve w"
    by (simp add: SkipObserve_def)
  from assms(2) have en: "IsGCPEnabled w = (True, w1)"
    by (cases "IsGCPEnabled w") (simp add: w1_def)
  have w1: "w1 = w\<lparr>calls := calls w @ es1\<rparr>"
    by (cases "IsGAE w") (simp_all add: w1_def es1_def IsGCPEnabled_GAE IsGCPEnabled_not_GAE logged_def)
  then have env: "environ w1 = environ w" and ps: "profilerStart w1 = profilerStart w"
    and calls1: "calls w1 = calls w @ es1" and cr: "credentials w1 = credentials w"
    by simp_all
  from assms(3) cr have nocreds: "snd (credentials w1) \<noteq> None"
    by (simp add: google_FindDefaultCredentials_def)
  then have nse: "NewStackdriverExporter projectID onError w1 =
      ((None, None), logged EvFindDefaultCredentials w1)"
    by (rule NewStackdriverExporter_no_credentials)
  have run: "RegisterAndObserveGCP onError w =
      (errors_Wrap (profilerStart (logged EvFindDefaultCredentials w1) ?cfg)
         ''unable to initiate profiling client'',
       logged (EvProfilerStart ?cfg)
         (view_RegisterExporter None
           (trace_RegisterExporter None (logged EvFindDefaultCredentials w1))))"
    by (rule Register_exporter_ok [OF skip en env assms(4) nse refl])
  have "new_calls w w1 = es1"
    using calls1 by (rule new_calls_append)
  moreover have "new_calls w (snd (RegisterAndObserveGCP onError w)) =
      es1 @ [EvFindDefaultCredentials, EvTraceRegisterExporter None, EvViewRegisterExporter None,
             EvProfilerStart ?cfg]"
    by (rule new_calls_append) (simp add: run calls1)
  ultimately show ?thesis
    using nse by (simp add: run ps w1_def [symmetric])
qed

text \<open>On App Engine without credentials, the profiler starting.\<close>

theorem nil_exporter_registered_without_credentials_witness:
  "os_Getenv (fresh gae_env no_credentials no_resource exporter_ok profiler_ok) ''GIZMO_SKIP_OBSERVE'' = [] \<and>
   fst (IsGCPEnabled (fresh gae_env no_credentials no_resource exporter_ok profiler_ok)) \<and>
   snd (fst (google_FindDefaultCredentials
     (fresh gae_env no_credentials no_resource exporter_ok profiler_ok))) \<noteq> None \<and>
   GetServiceInfo (fresh gae_env no_credentials no_resource exporter_ok profiler_ok) =
     (''nyt-proj'', ''web'', ''v7'') \<and>
   fst (RegisterAndObserveGCP (ErrorFunc 0)
     (fresh gae_env no_credentials no_resource exporter_ok profiler_ok)) = None \<and>
   calls (snd (RegisterAndObserveGCP (ErrorFunc 0)
     (fresh gae_env no_credentials no_resource exporter_ok profiler_ok))) =
     [EvFindDefaultCredentials, EvTraceRegisterExporter None, EvViewRegisterExporter None,
      EvProfilerStart \<lparr>ConfigProjectID = ''nyt-proj'', Service = ''web'', ServiceVersion = ''v7''\<rparr>] \<and>
   None \<in> trace_exporters (snd (RegisterAndObserveGCP (ErrorFunc 0)
     (fresh gae_env no_credentials no_resource exporter_ok profiler_ok))) \<and>
   None \<in> view_exporters (snd (RegisterAndObserveGCP (ErrorFunc 0)
     (fresh gae_env no_credentials no_resource exporter_ok profiler_ok)))"
proof -
  let ?w = "fresh gae_env no_credentials no_resource exporter_ok profiler_ok"
  have a: "os_Getenv ?w ''GIZMO_SKIP_OBSERVE'' = []"
    by (simp add: gae_env_def)
  have gae: "IsGAE ?w"
    by (simp add: IsGAE_def gae_env_def)
  then have en: "IsGCPEnabled ?w = (True, ?w)"
    by (rule IsGCPEnabled_GAE)
  then have b: "fst (IsGCPEnabled ?w)"
    by simp
  have c: "snd (fst (google_FindDefaultCredentials ?w)) \<noteq> None"
    by (simp add: google_FindDefaultCredentials_def no_credentials_def)
  have d: "GetServiceInfo ?w = (''nyt-proj'', ''web'', ''v7'')"
    by (simp add: GetServiceInfo_def GetGAEInfo_def GoogleProjectID_def IsGAE_def gae_env_def)
  have e: "new_calls ?w ?w = []" "calls ?w = []"
    by (simp_all add: new_calls_def)
  from nil_exporter_registered_without_credentials [OF a b c d, of "ErrorFunc 0"] a b c d
  show ?thesis
    by (simp add: en e new_calls_def profiler_ok_def errors_Wrap_def)
qed

subsection \<open>How often each collaborator is called\<close>

text \<open>
  Claim C9, as the code has it. In one run of \<^verbatim>\<open>RegisterAndObserveGCP\<close>, credential
  discovery, exporter construction, each of the two registrations and the profiler start
  happen at most once, and resource autodetection at most twice. In a run that is not
  opted out, finds credentials, passes both platform tests and whose exporter factory
  does not fail, each of the five happens exactly once, and autodetection once on App
  Engine (in \<^verbatim>\<open>getSDOpts\<close>) and twice elsewhere (in \<^verbatim>\<open>IsGCPEnabled\<close> and again in
  \<^verbatim>\<open>getSDOpts\<close>).
\<close>

theorem calls_per_invocation:
  "count_calls is_FindDefaultCredentials (new_calls w (snd (RegisterAndObserveGCP onError w))) \<le> 1 \<and>
   count_calls is_NewExporter (new_calls w (snd (RegisterAndObserveGCP onError w))) \<le> 1 \<and>
   count_calls is_TraceRegisterExporter (new_calls w (snd (RegisterAndObserveGCP onError w))) \<le> 1 \<and>
   count_calls is_ViewRegisterExporter (new_calls w (snd (RegisterAndObserveGCP onError w))) \<le> 1 \<and>
   count_calls is_ProfilerStart (new_calls w (snd (RegisterAndObserveGCP onError w))) \<le> 1 \<and>
   count_calls is_Autodetect (new_calls w (snd (RegisterAndObserveGCP onError w))) \<le> 2 \<and>
   (os_Getenv w ''GIZMO_SKIP_OBSERVE'' = [] \<and>
    snd (credentials w) = None \<and>
    (\<forall>opts. snd (newExporter w opts) = None) \<and>
    (os_Getenv w ''GAE_DEPLOYMENT_ID'' \<noteq> [] \<or>
      autodetect w (count_calls is_Autodetect (calls w)) \<noteq> None \<and>
      autodetect w (Suc (count_calls is_Autodetect (calls w))) \<noteq> None) \<longrightarrow>
    count_calls is_FindDefaultCredentials (new_calls w (snd (RegisterAndObserveGCP onError w))) = 1 \<and>
    count_calls is_NewExporter (new_calls w (snd (RegisterAndObserveGCP onError w))) = 1 \<and>
    count_calls is_TraceRegisterExporter (new_calls w (snd (RegisterAndObserveGCP onError w))) = 1 \<and>
    count_calls is_ViewRegisterExporter (new_calls w (snd (RegisterAndObserveGCP onError w))) = 1 \<and>
    count_calls is_ProfilerStart (new_calls w (snd (RegisterAndObserveGCP onError w))) = 1 \<and>
    count_calls is_Autodetect (new_calls w (snd (RegisterAndObserveGCP onError w))) =
      (if os_Getenv w ''GAE_DEPLOYMENT_ID'' \<noteq> [] then 1 else 2))"
    (is "?b1 \<and> ?b2 \<and> ?b3 \<and> ?b4 \<and> ?b5 \<and> ?b6 \<and> (?full \<longrightarrow> ?exact)")
proof -
  obtain projectID svcName svcVersion where info: "GetServiceInfo w = (projectID, svcName, svcVersion)"
    by (cases "GetServiceInfo w")
  define cfg where
    "cfg = \<lparr>ConfigProjectID = projectID, Service = svcName, ServiceVersion = svcVersion\<rparr>"
  let ?es = "new_calls w (snd (RegisterAndObserveGCP onError w))"
  from Register_log [OF info cfg_def, of onError]
  obtain es1 es2 es3 where
    log: "calls (snd (RegisterAndObserveGCP onError w)) = calls w @ es1 @ es2 @ es3"
    and es1: "es1 = [] \<or> es1 = [EvAutodetect]"
    and es2: "es2 = [] \<or> es2 = [EvFindDefaultCredentials] \<or>
            es2 = [EvFindDefaultCredentials, EvAutodetect] \<or>
            (\<exists>opts. es2 = [EvFindDefaultCredentials, EvAutodetect, EvNewExporter opts])"
    and es3: "es3 = [] \<or>
            (\<exists>exp. es3 = [EvTraceRegisterExporter exp, EvViewRegisterExporter exp, EvProfilerStart cfg])"
    by blast
  from log have new: "?es = es1 @ es2 @ es3"
    by (rule new_calls_append)
  have n1: "count_calls is_FindDefaultCredentials es1 = 0" "count_calls is_NewExporter es1 = 0"
    "count_calls is_TraceRegisterExporter es1 = 0" "count_calls is_ViewRegisterExporter es1 = 0"
    "count_calls is_ProfilerStart es1 = 0" "count_calls is_Autodetect es1 \<le> 1"
    using es1 by auto
  have n2: "count_calls is_FindDefaultCredentials es2 \<le> 1" "count_calls is_NewExporter es2 \<le> 1"
    "count_calls is_TraceRegisterExporter es2 = 0" "count_calls is_ViewRegisterExporter es2 = 0"
    "count_calls is_ProfilerStart es2 = 0" "count_calls is_Autodetect es2 \<le> 1"
    using es2 by auto
  have n3: "count_calls is_FindDefaultCredentials es3 = 0" "count_calls is_NewExporter es3 = 0"
    "count_calls is_TraceRegisterExporter es3 \<le> 1" "count_calls is_ViewRegisterExporter es3 \<le> 1"
    "count_calls is_ProfilerStart es3 \<le> 1" "count_calls is_Autodetect es3 = 0"
    using es3 by auto
  from n1 n2 n3 have bounds: "?b1 \<and> ?b2 \<and> ?b3 \<and> ?b4 \<and> ?b5 \<and> ?b6"
    unfolding new by simp
  have exact: ?exact if full: ?full
  proof -
    from full have skip: "\<not> SkipObserve w"
      by (simp add: SkipObserve_def)
    from full obtain creds where creds: "credentials w = (creds, None)"
      by (cases "credentials w") auto
    from full have factory: "\<forall>opts. snd (newExporter w opts) = None"
      by blast
    from full have platform: "IsGAE w \<or>
      autodetect w (count_calls is_Autodetect (calls w)) \<noteq> None \<and>
      autodetect w (Suc (count_calls is_Autodetect (calls w))) \<noteq> None"
      by (auto simp: IsGAE_def)
    from Register_full_run [OF skip creds factory platform info cfg_def, of onError]
    obtain opts exp where "calls (snd (RegisterAndObserveGCP onError w)) =
           calls w @ (if IsGAE w then [] else [EvAutodetect]) @
           [EvFindDefaultCredentials, EvAutodetect, EvNewExporter opts,
            EvTraceRegisterExporter exp, EvViewRegisterExporter exp, EvProfilerStart cfg]"
      by blast
    then have "?es = (if IsGAE w then [] else [EvAutodetect]) @
           [EvFindDefaultCredentials, EvAutodetect, EvNewExporter opts,
            EvTraceRegisterExporter exp, EvViewRegisterExporter exp, EvProfilerStart cfg]"
      by (rule new_calls_append)
    then show ?exact
      by (simp add: IsGAE_def)
  qed
  from bounds exact show ?thesis
    by blast
qed

text \<open>On App Engine with credentials: every collaborator is called once.\<close>

theorem calls_per_invocation_witness:
  "os_Getenv (fresh gae_env found_credentials no_resource exporter_ok profiler_ok) ''GIZMO_SKIP_OBSERVE'' = [] \<and>
   snd (credentials (fresh gae_env found_credentials no_resource exporter_ok profiler_ok)) = None \<and>
   (\<forall>opts. snd (newExporter (fresh gae_env found_credentials no_resource exporter_ok profiler_ok) opts) = None) \<and>
   os_Getenv (fresh gae_env found_credentials no_resource exporter_ok profiler_ok) ''GAE_DEPLOYMENT_ID'' \<noteq> [] \<and>
   count_calls is_FindDefaultCredentials (calls (snd (RegisterAndObserveGCP (ErrorFunc 0)
     (fresh gae_env found_credentials no_resource exporter_ok profiler_ok)))) = 1 \<and>
   count_calls is_Autodetect (calls (snd (RegisterAndObserveGCP (ErrorFunc 0)
     (fresh gae_env found_credentials no_resource exporter_ok profiler_ok)))) = 1 \<and>
   count_calls is_NewExporter (calls (snd (RegisterAndObserveGCP (ErrorFunc 0)
     (fresh gae_env found_credentials no_resource exporter_ok profiler_ok)))) = 1 \<and>
   count_calls is_TraceRegisterExporter (calls (snd (RegisterAndObserveGCP (ErrorFunc 0)
     (fresh gae_env found_credentials no_resource exporter_ok profiler_ok)))) = 1 \<and>
   count_calls is_ViewRegisterExporter (calls (snd (RegisterAndObserveGCP (ErrorFunc 0)
     (fresh gae_env found_credentials no_resource exporter_ok profiler_ok)))) = 1 \<and>
   count_calls is_ProfilerStart (calls (snd (RegisterAndObserveGCP (ErrorFunc 0)
     (fresh gae_env found_credentials no_resource exporter_ok profiler_ok)))) = 1"
proof -
  let ?w = "fresh gae_env found_credentials no_resource exporter_ok profiler_ok"
  have a: "os_Getenv ?w ''GIZMO_SKIP_OBSERVE'' = []"
    by (simp add: gae_env_def)
  have b: "snd (credentials ?w) = None"
    by (simp add: found_credentials_def)
  have c: "\<forall>opts. snd (newExporter ?w opts) = None"
    by (simp add: exporter_ok_def)
  have d: "os_Getenv ?w ''GAE_DEPLOYMENT_ID'' \<noteq> []"
    by (simp add: gae_env_def)
  have e: "new_calls ?w (snd (RegisterAndObserveGCP (ErrorFunc 0) ?w)) =
      calls (snd (RegisterAndObserveGCP (ErrorFunc 0) ?w))"
    by (simp add: new_calls_def)
  from calls_per_invocation [of ?w "ErrorFunc 0"] a b c d
  have "count_calls is_FindDefaultCredentials (new_calls ?w (snd (RegisterAndObserveGCP (ErrorFunc 0) ?w))) = 1 \<and>
    count_calls is_NewExporter (new_calls ?w (snd (RegisterAndObserveGCP (ErrorFunc 0) ?w))) = 1 \<and>
    count_calls is_TraceRegisterExporter (new_calls ?w (snd (RegisterAndObserveGCP (ErrorFunc 0) ?w))) = 1 \<and>
    count_calls is_ViewRegisterExporter (new_calls ?w (snd (RegisterAndObserveGCP (ErrorFunc 0) ?w))) = 1 \<and>
    count_calls is_ProfilerStart (new_calls ?w (snd (RegisterAndObserveGCP (ErrorFunc 0) ?w))) = 1 \<and>
    count_calls is_Autodetect (new_calls ?w (snd (RegisterAndObserveGCP (ErrorFunc 0) ?w))) =
      (if os_Getenv ?w ''GAE_DEPLOYMENT_ID'' \<noteq> [] then 1 else 2)"
    by blast
  with a b c d show ?thesis
    unfolding e by simp
qed

text \<open>
  Claim C9 as stated, with every external call made exactly once, fails: on a Compute
  Engine instance with credentials, resource autodetection is called twice in one run.
\<close>

theorem autodetect_twice_counterexample:
  "count_calls is_Autodetect
     (new_calls (fresh gce_env found_credentials gce_instance exporter_ok profiler_ok)
        (snd (RegisterAndObserveGCP (ErrorFunc 0)
           (fresh gce_env found_credentials gce_instance exporter_ok profiler_ok)))) = 2"
  by (simp add: run_defs new_calls_def gce_env_def found_credentials_def gce_instance_def
      exporter_ok_def profiler_ok_def)

end
